theory Spec2Isabelle
  imports Main "HOL-Library.AList"
begin

section \<open>The tracker of src/src/tracker.ts\<close>

text \<open>
  The class \<open>Tracker\<close> keeps one private field, \<open>initializedRecords\<close>, a JavaScript
  \<open>Map\<close> from an event type to a \<open>Map\<close> from an id to the record created under that id.
  A JavaScript \<open>Map\<close> keeps its entries in insertion order, \<open>set\<close> on a present key
  replaces the value where it stands, \<open>set\<close> on a new key appends, and \<open>delete\<close>
  removes the entry: an association list with \<open>map_of\<close>, \<open>AList.update\<close> and
  \<open>AList.delete\<close>.

  Everything a method does besides changing that field is returned as data: the value
  it returns or the exception it throws (\<open>outcome\<close>), and the list of the calls it
  makes to the outside, in order (\<open>effect\<close>): \<open>console.warn\<close>, \<open>options.onCreate\<close> and
  the function \<open>triggerSubmit\<close> picks (\<open>OnSubmit\<close>). What the outside gives back to a method, a clock reading and
  a generated id, comes in as \<open>env\<close>.

  A callback is modelled by what its caller can see of it: the argument it is called
  with and whether it returns or throws. A callback that calls back into the tracker
  or assigns to the fields of the record it is handed is outside this model.
\<close>

subsection \<open>Data (src/src/typings.ts)\<close>

type_synonym exn = string

datatype 'a outcome = Returned 'a | Thrown exn

record TrackingInitialRecord =
  id_r :: string
  type_r :: string
  createdAt :: int

record 'd TrackingSubmitRecord = TrackingInitialRecord +
  submittedAt :: int
  data_r :: 'd

text \<open>A handler returns (\<open>None\<close>) or throws (\<open>Some x\<close>).\<close>

type_synonym 'd handler = "'d TrackingSubmitRecord \<Rightarrow> exn option"

text \<open>
  What reading a property of an object gives, as far as the call \<open>fn?.(arg)\<close> of
  \<open>triggerSubmit\<close> can tell: \<open>undefined\<close> (or \<open>null\<close>), a function, or a value that is
  neither and cannot be called.
\<close>

datatype 'd property = Undefined | Function "'d handler" | NotCallable

text \<open>
  \<open>options.onSubmit\<close> is one function for every type, or an object
  (\<open>TrackingSubmissionHandlers\<close>, a \<open>Partial\<close>). The tracker does one thing with the
  object, the read \<open>onSubmit[type]\<close>, so the object is modelled by that read: what it
  gives under a name is the object's own property of that name or, when it has none,
  what its prototype chain has under the name.
\<close>

datatype 'd submission = Global "'d handler" | PerType "string \<Rightarrow> 'd property"

text \<open>
  The members of \<open>Object.prototype\<close>, as \<open>fn?.(arg)\<close> meets them: read under their
  names and called as a plain function, \<open>this\<close> being \<open>undefined\<close>, with one object as
  the argument. \<open>toString\<close> returns \<open>"[object Undefined]"\<close> and \<open>constructor\<close>, which is
  \<open>Object\<close>, returns its argument. \<open>hasOwnProperty\<close>, \<open>isPrototypeOf\<close>,
  \<open>propertyIsEnumerable\<close>, \<open>toLocaleString\<close>, \<open>valueOf\<close> and the four accessor helpers
  \<open>__defineGetter__\<close>, \<open>__defineSetter__\<close>, \<open>__lookupGetter__\<close>, \<open>__lookupSetter__\<close>
  turn \<open>this\<close> into an object and throw a \<open>TypeError\<close> on \<open>undefined\<close>. \<open>__proto__\<close>
  reads as the prototype itself, an object that is not a function.
\<close>

definition Object_prototype :: "string \<Rightarrow> 'd property" where
  "Object_prototype name =
     (if name = ''toString'' \<or> name = ''constructor'' then Function (\<lambda>arg. None)
      else if name \<in> set [''hasOwnProperty'', ''isPrototypeOf'', ''propertyIsEnumerable'',
                           ''toLocaleString'', ''valueOf'', ''__defineGetter__'',
                           ''__defineSetter__'', ''__lookupGetter__'', ''__lookupSetter__'']
        then Function (\<lambda>arg. Some ''TypeError'')
      else if name = ''__proto__'' then NotCallable
      else Undefined)"

text \<open>
  The object an object literal \<open>{k1: h1, ..., kn: hn}\<close> makes, each key written once and
  none of them \<open>__proto__\<close>: its own properties are the functions written, and its
  prototype is \<open>Object.prototype\<close>.
\<close>

definition object_literal :: "(string \<times> 'd handler) list \<Rightarrow> string \<Rightarrow> 'd property" where
  "object_literal entries name =
     (case map_of entries name of Some h \<Rightarrow> Function h | None \<Rightarrow> Object_prototype name)"

text \<open>
  What a method reads from outside the tracker: \<open>now\<close> is \<open>Date.now()\<close>,
  \<open>defaultIdGenerator\<close> is the string the function of that name returns at this call
  (tracker.ts imports it from \<open>./defaultIdGenerator\<close> and uses nothing of it but the
  string, so the string is a parameter), and \<open>entropy\<close> is whatever else a configured
  \<open>generateId\<close> draws on.
\<close>

record env =
  now :: int
  entropy :: nat
  defaultIdGenerator :: string

text \<open>
  A configured \<open>generateId\<close> throws, or returns a string, or returns \<open>null\<close> or
  \<open>undefined\<close> (\<open>None\<close>), the case the \<open>??\<close> of the source is written for.
\<close>

record 'd options =
  generateId :: "(env \<Rightarrow> string option outcome) option"
  onCreate :: "(TrackingInitialRecord \<Rightarrow> exn option) option"
  onSubmit :: "'d submission option"

datatype 'd effect =
    Warn string
  | OnCreate TrackingInitialRecord
  | OnSubmit "'d TrackingSubmitRecord"

type_synonym records = "(string \<times> TrackingInitialRecord) list"

type_synonym store = "(string \<times> records) list"

text \<open>
  The third argument of \<open>submit\<close>, \<open>idOrRecord?: string | TrackingInitialRecord\<close>:
  left out, a string, or an object, of which \<open>submit\<close> reads the field \<open>id\<close> only
  (\<open>None\<close> when the object has no such field).
\<close>

datatype idOrRecord = Omitted | IdString string | RecordObject "string option"

subsection \<open>Methods (src/src/tracker.ts)\<close>

text \<open>\<open>new Tracker(options)\<close>: the field starts as \<open>new Map()\<close>.\<close>

definition initializedRecords :: store where
  "initializedRecords = []"

text \<open>
  \<open>ensureTypeRecords\<close> (lines 25 to 30) returns the partition of the type, after
  storing an empty one when there is none. The partition it returns is the very
  \<open>Map\<close> held in the outer one; a caller that changes it writes it back with
  \<open>AList.update\<close>, which replaces the entry where it stands.
\<close>

definition ensureTypeRecords :: "string \<Rightarrow> store \<Rightarrow> records \<times> store" where
  "ensureTypeRecords type m =
     (case map_of m type of
        None \<Rightarrow> ([], AList.update type [] m)
      | Some records \<Rightarrow> (records, m))"

text \<open>\<open>this.options.generateId?.() ?? defaultIdGenerator()\<close> (lines 32 to 34).\<close>

definition Tracker_generateId :: "'d options \<Rightarrow> env \<Rightarrow> string outcome" where
  "Tracker_generateId opts e =
     (case generateId opts of
        None \<Rightarrow> Returned (defaultIdGenerator e)
      | Some g \<Rightarrow>
          (case g e of
             Thrown x \<Rightarrow> Thrown x
           | Returned None \<Rightarrow> Returned (defaultIdGenerator e)
           | Returned (Some s) \<Rightarrow> Returned s))"

text \<open>
  What \<open>triggerSubmit\<close> picks (lines 47 to 50): \<open>onSubmit\<close> itself when it is a
  function, else what the read \<open>onSubmit?.[type]\<close> gives.
\<close>

definition submit_fn :: "'d options \<Rightarrow> string \<Rightarrow> 'd property" where
  "submit_fn opts type =
     (case onSubmit opts of
        None \<Rightarrow> Undefined
      | Some (Global f) \<Rightarrow> Function f
      | Some (PerType table) \<Rightarrow> table type)"

text \<open>
  \<open>triggerSubmit\<close> (lines 36 to 56): the call \<open>fn?.(arg)\<close> does nothing when \<open>fn\<close> is
  \<open>undefined\<close>, throws a \<open>TypeError\<close> when \<open>fn\<close> is a value that cannot be called, and
  otherwise calls \<open>fn\<close> with the object \<open>{...record, submittedAt, data}\<close> (\<open>spread\<close>).
\<close>

definition spread :: "TrackingInitialRecord \<Rightarrow> int \<Rightarrow> 'd \<Rightarrow> 'd TrackingSubmitRecord" where
  "spread record sAt d =
     \<lparr>id_r = id_r record, type_r = type_r record, createdAt = createdAt record,
      submittedAt = sAt, data_r = d\<rparr>"

definition triggerSubmit ::
  "'d options \<Rightarrow> TrackingInitialRecord \<Rightarrow> int \<Rightarrow> 'd \<Rightarrow> string \<Rightarrow> unit outcome \<times> 'd effect list" where
  "triggerSubmit opts record sAt d type =
     (case submit_fn opts type of
        Undefined \<Rightarrow> (Returned (), [])
      | NotCallable \<Rightarrow> (Thrown ''TypeError'', [])
      | Function fn \<Rightarrow>
          (let arg = spread record sAt d
           in case fn arg of
                None \<Rightarrow> (Returned (), [OnSubmit arg])
              | Some x \<Rightarrow> (Thrown x, [OnSubmit arg])))"

text \<open>\<open>getRecord\<close> (lines 58 to 70) reads the field and never writes it.\<close>

definition getRecord ::
  "string \<Rightarrow> string \<Rightarrow> store \<Rightarrow> TrackingInitialRecord option outcome \<times> store \<times> 'd effect list" where
  "getRecord type i m =
     (case map_of m type of
        None \<Rightarrow> (Returned None, m, [Warn (''No records found for type '' @ type)])
      | Some records \<Rightarrow>
          (case map_of records i of
             None \<Rightarrow>
               (Returned None, m,
                [Warn (''Record with id '' @ i @ '' not found for type '' @ type)])
           | Some record \<Rightarrow> (Returned (Some record), m, [])))"

text \<open>
  \<open>create\<close> (lines 72 to 79): the id first, then the clock, then the record is stored,
  then \<open>onCreate\<close> is called, then the record is returned.
\<close>

definition create ::
  "'d options \<Rightarrow> env \<Rightarrow> string \<Rightarrow> store \<Rightarrow> TrackingInitialRecord outcome \<times> store \<times> 'd effect list" where
  "create opts e type m =
     (case Tracker_generateId opts e of
        Thrown x \<Rightarrow> (Thrown x, m, [])
      | Returned i \<Rightarrow>
          (let record = \<lparr>id_r = i, type_r = type, createdAt = now e\<rparr>;
               (records, m1) = ensureTypeRecords type m;
               m2 = AList.update type (AList.update i record records) m1
           in case onCreate opts of
                None \<Rightarrow> (Returned record, m2, [])
              | Some f \<Rightarrow>
                  (case f record of
                     None \<Rightarrow> (Returned record, m2, [OnCreate record])
                   | Some x \<Rightarrow> (Thrown x, m2, [OnCreate record]))))"

text \<open>
  Line 104: \<open>typeof idOrRecord === "string" ? idOrRecord : idOrRecord?.id\<close>, and
  line 105, \<open>!id\<close>: \<open>undefined\<close> and the empty string are the falsy values an id
  can be.
\<close>

definition extract_id :: "idOrRecord \<Rightarrow> string option" where
  "extract_id x = (case x of Omitted \<Rightarrow> None | IdString s \<Rightarrow> Some s | RecordObject f \<Rightarrow> f)"

definition falsy :: "string option \<Rightarrow> bool" where
  "falsy v = (case v of None \<Rightarrow> True | Some s \<Rightarrow> s = [])"

text \<open>The id \<open>submit\<close> goes on with past line 105, \<open>None\<close> when \<open>!id\<close> holds.\<close>

definition target_id :: "idOrRecord \<Rightarrow> string option" where
  "target_id x = (let i = extract_id x in if falsy i then None else i)"

text \<open>
  The loop of lines 106 to 109, \<open>records.forEach\<close> with a callback that deletes from
  the \<open>Map\<close> it runs over. \<open>Map.prototype.forEach\<close> walks the entries in insertion
  order and passes over an entry that was deleted before its turn; the callback adds
  none. So the loop walks the entries as they were at the start (\<open>pending\<close>) and
  looks each key up in the \<open>Map\<close> as it is by then (\<open>live\<close>). The callback deletes the
  key \<open>record.id\<close>, not the key the entry is stored under. A handler that throws ends
  the loop with the \<open>Map\<close> as it is at that point.
\<close>

fun forEach_submit ::
  "'d options \<Rightarrow> int \<Rightarrow> 'd \<Rightarrow> string \<Rightarrow> records \<Rightarrow> records \<Rightarrow> unit outcome \<times> records \<times> 'd effect list" where
  "forEach_submit opts sAt d type [] live = (Returned (), live, [])"
| "forEach_submit opts sAt d type ((k, v) # pending) live =
     (case map_of live k of
        None \<Rightarrow> forEach_submit opts sAt d type pending live
      | Some record \<Rightarrow>
          (case triggerSubmit opts record sAt d type of
             (Thrown x, effs) \<Rightarrow> (Thrown x, live, effs)
           | (Returned u, effs) \<Rightarrow>
               (case forEach_submit opts sAt d type pending (AList.delete (id_r record) live) of
                  (res, live', effs') \<Rightarrow> (res, live', effs @ effs'))))"

text \<open>\<open>submit\<close> (lines 97 to 119).\<close>

definition submit ::
  "'d options \<Rightarrow> env \<Rightarrow> string \<Rightarrow> 'd \<Rightarrow> idOrRecord \<Rightarrow> store \<Rightarrow> unit outcome \<times> store \<times> 'd effect list" where
  "submit opts e type d idOrRecord m =
     (let (records, m1) = ensureTypeRecords type m;
          sAt = now e
      in case target_id idOrRecord of
           None \<Rightarrow>
             (case forEach_submit opts sAt d type records records of
                (res, records', effs) \<Rightarrow> (res, AList.update type records' m1, effs))
         | Some i \<Rightarrow>
             (case map_of records i of
                None \<Rightarrow>
                  (Returned (), m1,
                   [Warn (''Record with id '' @ i @ '' not found for type '' @ type)])
              | Some record \<Rightarrow>
                  (case triggerSubmit opts record sAt d type of
                     (Thrown x, effs) \<Rightarrow> (Thrown x, m1, effs)
                   | (Returned u, effs) \<Rightarrow>
                       (Returned (), AList.update type (AList.delete i records) m1, effs))))"

subsection \<open>Reading a result and a store\<close>

definition outcome_of :: "'a outcome \<times> store \<times> 'd effect list \<Rightarrow> 'a outcome" where
  "outcome_of p = fst p"

definition store_of :: "'a outcome \<times> store \<times> 'd effect list \<Rightarrow> store" where
  "store_of p = fst (snd p)"

definition effects_of :: "'a outcome \<times> store \<times> 'd effect list \<Rightarrow> 'd effect list" where
  "effects_of p = snd (snd p)"

text \<open>The type has a partition: \<open>initializedRecords.has(type)\<close>.\<close>

definition has_partition :: "store \<Rightarrow> string \<Rightarrow> bool" where
  "has_partition m type = (map_of m type \<noteq> None)"

text \<open>The records stored under a type, none when the type has no partition.\<close>

definition partition_of :: "store \<Rightarrow> string \<Rightarrow> records" where
  "partition_of m type = (case map_of m type of None \<Rightarrow> [] | Some records \<Rightarrow> records)"

text \<open>The record stored under a type and an id, if any.\<close>

definition lookup :: "store \<Rightarrow> string \<Rightarrow> string \<Rightarrow> TrackingInitialRecord option" where
  "lookup m type i = map_of (partition_of m type) i"

definition is_OnSubmit :: "'d effect \<Rightarrow> bool" where
  "is_OnSubmit x = (case x of OnSubmit r \<Rightarrow> True | _ \<Rightarrow> False)"

text \<open>
  What the stores the tracker builds have in common: a \<open>Map\<close> holds a key once, and
  \<open>create\<close>, the only method that stores a record, stores it under its own id.
\<close>

definition wf_records :: "records \<Rightarrow> bool" where
  "wf_records records =
     (distinct (map fst records) \<and> (\<forall>(k, record) \<in> set records. id_r record = k))"

definition wf :: "store \<Rightarrow> bool" where
  "wf m = (distinct (map fst m) \<and> (\<forall>(type, records) \<in> set m. wf_records records))"

section \<open>Auxiliary facts\<close>

subsection \<open>The store and the methods, unfolded\<close>

lemma update_absent: "map_of m k = None \<Longrightarrow> AList.update k v m = m @ [(k, v)]"
  by (induction m) (auto split: if_splits)

lemma update_present: "map_of m k = Some v \<Longrightarrow> AList.update k v m = m"
  by (rule update_triv)

lemma ensure_fst: "fst (ensureTypeRecords type m) = partition_of m type"
  by (simp add: ensureTypeRecords_def partition_of_def split: option.splits)

lemma ensure_snd_lookup: "map_of (snd (ensureTypeRecords type m)) type = Some (partition_of m type)"
  by (simp add: ensureTypeRecords_def partition_of_def update_conv' split: option.splits)

lemma ensure_snd_other: "t \<noteq> type \<Longrightarrow> map_of (snd (ensureTypeRecords type m)) t = map_of m t"
  by (simp add: ensureTypeRecords_def update_conv' split: option.splits)

lemma ensure_snd_present: "has_partition m type \<Longrightarrow> snd (ensureTypeRecords type m) = m"
  by (auto simp: ensureTypeRecords_def has_partition_def split: option.splits)

lemma ensure_snd_absent: "\<not> has_partition m type \<Longrightarrow> snd (ensureTypeRecords type m) = m @ [(type, [])]"
  by (auto simp: ensureTypeRecords_def has_partition_def update_absent split: option.splits)

lemma ensure_eq: "ensureTypeRecords type m = (partition_of m type, snd (ensureTypeRecords type m))"
  by (metis ensure_fst prod.collapse)

lemma partition_of_update: "partition_of (AList.update t rs m) t' = (if t' = t then rs else partition_of m t')"
  by (simp add: partition_of_def update_conv')

lemma partition_of_ensure: "partition_of (snd (ensureTypeRecords type m)) t = partition_of m t"
  by (cases "t = type") (simp_all add: partition_of_def ensure_snd_lookup ensure_snd_other split: option.splits)

lemma has_partition_update: "has_partition (AList.update t rs m) t' = (t' = t \<or> has_partition m t')"
  by (simp add: has_partition_def update_conv')

lemma has_partition_ensure: "has_partition (snd (ensureTypeRecords type m)) t = (t = type \<or> has_partition m t)"
  by (cases "t = type") (simp_all add: has_partition_def ensure_snd_lookup ensure_snd_other)

lemma getRecord_lookup:
  "getRecord type i m =
     (if \<not> has_partition m type then (Returned None, m, [Warn (''No records found for type '' @ type)])
      else case lookup m type i of
             None \<Rightarrow> (Returned None, m, [Warn (''Record with id '' @ i @ '' not found for type '' @ type)])
           | Some record \<Rightarrow> (Returned (Some record), m, []))"
  by (simp add: getRecord_def has_partition_def lookup_def partition_of_def split: option.splits)

lemma create_unfold:
  "create opts e type m =
     (case Tracker_generateId opts e of
        Thrown x \<Rightarrow> (Thrown x, m, [])
      | Returned i \<Rightarrow>
          (let record = \<lparr>id_r = i, type_r = type, createdAt = now e\<rparr>;
               m2 = AList.update type (AList.update i record (partition_of m type)) (snd (ensureTypeRecords type m))
           in case onCreate opts of
                None \<Rightarrow> (Returned record, m2, [])
              | Some f \<Rightarrow>
                  (case f record of
                     None \<Rightarrow> (Returned record, m2, [OnCreate record])
                   | Some x \<Rightarrow> (Thrown x, m2, [OnCreate record]))))"
  by (simp add: create_def Let_def case_prod_unfold ensure_fst split: outcome.splits option.splits)

lemma create_Returned:
  assumes "create opts e type m = (Returned r, m1, effs)"
  shows "r = \<lparr>id_r = id_r r, type_r = type, createdAt = now e\<rparr>"
    and "m1 = AList.update type (AList.update (id_r r) r (partition_of m type)) (snd (ensureTypeRecords type m))"
    and "Tracker_generateId opts e = Returned (id_r r)"
  using assms by (auto simp: create_unfold Let_def split: outcome.splits option.splits)

lemma submit_unfold:
  "submit opts e type d x m =
     (case target_id x of
        None \<Rightarrow>
          (case forEach_submit opts (now e) d type (partition_of m type) (partition_of m type) of
             (res, records', effs) \<Rightarrow> (res, AList.update type records' (snd (ensureTypeRecords type m)), effs))
      | Some i \<Rightarrow>
          (case lookup m type i of
             None \<Rightarrow>
               (Returned (), snd (ensureTypeRecords type m),
                [Warn (''Record with id '' @ i @ '' not found for type '' @ type)])
           | Some record \<Rightarrow>
               (case triggerSubmit opts record (now e) d type of
                  (Thrown x, effs) \<Rightarrow> (Thrown x, snd (ensureTypeRecords type m), effs)
                | (Returned u, effs) \<Rightarrow>
                    (Returned (), AList.update type (AList.delete i (partition_of m type)) (snd (ensureTypeRecords type m)), effs))))"
  by (simp add: submit_def Let_def case_prod_unfold ensure_fst lookup_def split: outcome.splits option.splits)

subsection \<open>Stores the tracker can build\<close>

lemma delete_as_filter: "AList.delete k al = filter (\<lambda>(k', v). k' \<noteq> k) al"
  by (induction al) (auto simp: AList.delete_eq)

lemma wf_records_delete: "wf_records records \<Longrightarrow> wf_records (AList.delete k records)"
  unfolding wf_records_def
  by (intro conjI) (simp add: distinct_delete, auto simp: delete_as_filter)

lemma set_update_subset: "p \<in> set (AList.update k v al) \<Longrightarrow> p = (k, v) \<or> p \<in> set al"
  by (induction al) (auto split: if_splits)

lemma wf_records_update:
  assumes "wf_records records" and "id_r record = k"
  shows "wf_records (AList.update k record records)"
proof -
  have "distinct (map fst (AList.update k record records))"
    using assms(1) by (simp add: wf_records_def distinct_update)
  moreover have "id_r r' = k'" if "(k', r') \<in> set (AList.update k record records)" for k' r'
    using set_update_subset [OF that] assms by (auto simp: wf_records_def)
  ultimately show ?thesis
    unfolding wf_records_def by blast
qed

lemma wf_partition_of:
  assumes "wf m"
  shows "wf_records (partition_of m type)"
proof (cases "map_of m type")
  case None
  then show ?thesis by (simp add: partition_of_def wf_records_def)
next
  case (Some records)
  then have "(type, records) \<in> set m" by (rule map_of_SomeD)
  with assms have "wf_records records" by (auto simp: wf_def)
  with Some show ?thesis by (simp add: partition_of_def)
qed

lemma wf_update:
  assumes "wf m" and "wf_records records"
  shows "wf (AList.update type records m)"
proof -
  have "distinct (map fst (AList.update type records m))"
    using assms(1) by (simp add: wf_def distinct_update)
  moreover have "wf_records rs" if "(t, rs) \<in> set (AList.update type records m)" for t rs
    using set_update_subset [OF that] assms by (auto simp: wf_def)
  ultimately show ?thesis
    unfolding wf_def by blast
qed

lemma wf_ensure: "wf m \<Longrightarrow> wf (snd (ensureTypeRecords type m))"
  by (simp add: ensureTypeRecords_def wf_update wf_records_def split: option.splits)

subsection \<open>The loop of the bulk branch\<close>


lemma forEach_all_return:
  "distinct (map fst pending) \<Longrightarrow>
   \<forall>(k, v) \<in> set pending.
      map_of live k = Some v \<and> id_r v = k \<and> triggerSubmit opts v sAt d type = (Returned (), g v) \<Longrightarrow>
   forEach_submit opts sAt d type pending live =
     (Returned (), filter (\<lambda>(k, v). k \<notin> fst ` set pending) live, concat (map (\<lambda>(k, v). g v) pending))"
proof (induction pending arbitrary: live)
  case Nil
  then show ?case by simp
next
  case (Cons p pending)
  obtain k v where p: "p = (k, v)" by (cases p)
  from Cons.prems p have kv: "map_of live k = Some v" "id_r v = k"
    "triggerSubmit opts v sAt d type = (Returned (), g v)"
    by simp_all
  from Cons.prems(1) p have dist: "distinct (map fst pending)" and notin: "k \<notin> fst ` set pending"
    by simp_all
  have "\<forall>(k', v') \<in> set pending.
      map_of (AList.delete k live) k' = Some v' \<and> id_r v' = k'
      \<and> triggerSubmit opts v' sAt d type = (Returned (), g v')"
    using Cons.prems(2) notin by (force simp: delete_conv')
  with dist have "forEach_submit opts sAt d type pending (AList.delete k live) =
     (Returned (), filter (\<lambda>(k, v). k \<notin> fst ` set pending) (AList.delete k live),
      concat (map (\<lambda>(k, v). g v) pending))"
    by (rule Cons.IH)
  moreover have "filter (\<lambda>(k, v). k \<notin> fst ` set pending) (AList.delete k live)
      = filter (\<lambda>(k', v). k' \<notin> fst ` set (p # pending)) live"
    unfolding delete_as_filter filter_filter using p by (intro filter_cong) auto
  ultimately show ?case
    using p kv by simp
qed

lemma filter_own_keys: "filter (\<lambda>(k, v). k \<notin> fst ` set al) al = []"
  by (force simp: filter_empty_conv)

lemma wf_forEach:
  "wf_records live \<Longrightarrow> forEach_submit opts sAt d type pending live = (res, live', effs) \<Longrightarrow>
   wf_records live'"
proof (induction pending arbitrary: live res live' effs)
  case Nil
  then show ?case by simp
next
  case (Cons p pending)
  obtain k v where p: "p = (k, v)" by (cases p)
  show ?case
  proof (cases "map_of live k")
    case None
    with Cons.prems p show ?thesis
      by (auto intro: Cons.IH)
  next
    case (Some stored)
    show ?thesis
    proof (cases "triggerSubmit opts stored sAt d type")
      case (Pair r1 effs1)
      show ?thesis
      proof (cases r1)
        case (Thrown x)
        with Cons.prems p Some Pair show ?thesis by simp
      next
        case (Returned u)
        obtain r2 live2 effs2 where
          rec: "forEach_submit opts sAt d type pending (AList.delete (id_r stored) live) = (r2, live2, effs2)"
          by (cases "forEach_submit opts sAt d type pending (AList.delete (id_r stored) live)")
        from wf_records_delete [OF Cons.prems(1), of "id_r stored"] rec have "wf_records live2"
          by (rule Cons.IH)
        with Cons.prems p Some Pair Returned rec show ?thesis by simp
      qed
    qed
  qed
qed

lemma concat_singletons: "concat (map (\<lambda>(k, v). [f v]) al) = map (\<lambda>(k, v). f v) al"
  by (induction al) auto

lemma length_filter_OnSubmit:
  "length (filter is_OnSubmit (map (\<lambda>(k, v). OnSubmit (f v)) al)) = length al"
  by (induction al) (auto simp: is_OnSubmit_def)

subsection \<open>The methods keep the store well formed\<close>

lemma wf_initializedRecords: "wf initializedRecords"
  by (simp add: wf_def initializedRecords_def)

lemma wf_create:
  assumes "wf m"
  shows "wf (store_of (create opts e type m))"
proof (cases "Tracker_generateId opts e")
  case (Thrown x)
  with assms show ?thesis
    by (simp add: create_unfold store_of_def)
next
  case (Returned i)
  let ?r = "\<lparr>id_r = i, type_r = type, createdAt = now e\<rparr>"
  have "wf_records (AList.update i ?r (partition_of m type))"
    by (rule wf_records_update [OF wf_partition_of [OF assms]]) simp
  then have "wf (AList.update type (AList.update i ?r (partition_of m type))
                  (snd (ensureTypeRecords type m)))"
    by (rule wf_update [OF wf_ensure [OF assms]])
  with Returned show ?thesis
    by (simp add: create_unfold Let_def store_of_def split: option.splits)
qed

lemma wf_getRecord: "wf m \<Longrightarrow> wf (store_of (getRecord type i m))"
  by (simp add: getRecord_def store_of_def split: option.splits)

lemma wf_submit:
  assumes "wf m"
  shows "wf (store_of (submit opts e type d x m))"
proof (cases "target_id x")
  case None
  obtain res records' effs where
    f: "forEach_submit opts (now e) d type (partition_of m type) (partition_of m type)
          = (res, records', effs)"
    by (cases "forEach_submit opts (now e) d type (partition_of m type) (partition_of m type)")
  from wf_partition_of [OF assms] f have "wf_records records'"
    by (rule wf_forEach)
  then have "wf (AList.update type records' (snd (ensureTypeRecords type m)))"
    by (rule wf_update [OF wf_ensure [OF assms]])
  with None f show ?thesis
    by (simp add: submit_unfold store_of_def)
next
  case (Some i)
  have "wf (AList.update type (AList.delete i (partition_of m type)) (snd (ensureTypeRecords type m)))"
    by (rule wf_update [OF wf_ensure [OF assms] wf_records_delete [OF wf_partition_of [OF assms]]])
  with Some wf_ensure [OF assms, of type] show ?thesis
    by (auto simp: submit_unfold store_of_def split: option.splits prod.splits outcome.splits)
qed

subsection \<open>The two branches of submit, with a function that returns\<close>

lemma triggerSubmit_returns:
  "submit_fn opts type = Function fn \<Longrightarrow> fn (spread stored sAt d) = None \<Longrightarrow>
   triggerSubmit opts stored sAt d type = (Returned (), [OnSubmit (spread stored sAt d)])"
  by (simp add: triggerSubmit_def)

lemma lookup_has_partition: "lookup m type i = Some stored \<Longrightarrow> has_partition m type"
  by (auto simp: lookup_def partition_of_def has_partition_def split: option.splits)

lemma update_ensure_empty:
  "AList.update type [] (snd (ensureTypeRecords type m)) = AList.update type [] m"
  by (cases "map_of m type") (simp_all add: ensureTypeRecords_def)

lemma submit_bulk_all_return:
  assumes "wf m" and "target_id x = None" and "submit_fn opts type = Function fn"
    and "\<forall>(k, stored) \<in> set (partition_of m type). fn (spread stored (now e) d) = None"
  shows "submit opts e type d x m =
           (Returned (), AList.update type [] m,
            map (\<lambda>(k, stored). OnSubmit (spread stored (now e) d)) (partition_of m type))"
proof -
  let ?records = "partition_of m type"
  let ?g = "\<lambda>stored. [OnSubmit (spread stored (now e) d)]"
  from wf_partition_of [OF assms(1)] have wfr: "wf_records ?records" .
  then have dist: "distinct (map fst ?records)"
    by (simp add: wf_records_def)
  have each: "\<forall>(k, v) \<in> set ?records.
      map_of ?records k = Some v \<and> id_r v = k
      \<and> triggerSubmit opts v (now e) d type = (Returned (), ?g v)"
  proof (clarify, intro conjI)
    fix k v
    assume kv: "(k, v) \<in> set ?records"
    with dist show "map_of ?records k = Some v"
      by simp
    from kv wfr show "id_r v = k"
      by (auto simp: wf_records_def)
    from kv assms(4) have "fn (spread v (now e) d) = None"
      by auto
    with assms(3) show "triggerSubmit opts v (now e) d type = (Returned (), ?g v)"
      by (rule triggerSubmit_returns)
  qed
  have "forEach_submit opts (now e) d type ?records ?records =
          (Returned (), filter (\<lambda>(k, v). k \<notin> fst ` set ?records) ?records,
           concat (map (\<lambda>(k, v). ?g v) ?records))"
    using dist each by (rule forEach_all_return)
  moreover have "concat (map (\<lambda>(k, v). ?g v) ?records)
      = map (\<lambda>(k, stored). OnSubmit (spread stored (now e) d)) ?records"
    by (rule concat_singletons)
  ultimately have "forEach_submit opts (now e) d type ?records ?records =
          (Returned (), [], map (\<lambda>(k, stored). OnSubmit (spread stored (now e) d)) ?records)"
    by (simp add: filter_own_keys)
  with assms(2) show ?thesis
    by (simp add: submit_unfold update_ensure_empty)
qed

lemma submit_single_returns:
  assumes "target_id x = Some i" and "lookup m type i = Some stored"
    and "submit_fn opts type = Function fn" and "fn (spread stored (now e) d) = None"
  shows "submit opts e type d x m =
           (Returned (), AList.update type (AList.delete i (partition_of m type)) m,
            [OnSubmit (spread stored (now e) d)])"
  using assms
  by (simp add: submit_unfold triggerSubmit_returns ensure_snd_present [OF lookup_has_partition])

subsection \<open>A handler that throws\<close>

text \<open>
  Line 117 comes before line 118: when the handler throws, \<open>submit\<close> throws what it
  threw and the \<open>delete\<close> is not reached, so the record stays in the store.
\<close>

lemma submit_handler_throws:
  assumes "target_id x = Some i" and "lookup m type i = Some stored"
    and "submit_fn opts type = Function fn" and "fn (spread stored (now e) d) = Some exn"
  shows "submit opts e type d x m = (Thrown exn, m, [OnSubmit (spread stored (now e) d)])"
proof -
  from assms(2) have "has_partition m type"
    by (auto simp: lookup_def partition_of_def has_partition_def split: option.splits)
  then have "snd (ensureTypeRecords type m) = m"
    by (rule ensure_snd_present)
  moreover from assms(3,4)
  have "triggerSubmit opts stored (now e) d type = (Thrown exn, [OnSubmit (spread stored (now e) d)])"
    by (simp add: triggerSubmit_def)
  ultimately show ?thesis
    using assms(1,2) by (simp add: submit_unfold)
qed

section \<open>The claims\<close>



text \<open>
  Claim C2 (bulk submit clears the partition). Let the store be well formed, let the
  third argument of \<open>submit\<close> resolve to no id, let \<open>fn\<close> be the handler configured for
  the type (the one function, or what the table gives under the type), and let \<open>fn\<close> return on each
  record stored under the type. Then \<open>submit\<close> returns; its calls to the outside are
  one call of \<open>fn\<close> for each of the N stored records, in the order they were stored,
  each with the record's fields, \<open>submittedAt\<close> and the data supplied, and no warning;
  the partition of the type is left empty (and is there, if it was not before), so
  that \<open>getRecord\<close> finds no id under the type afterwards, while the records of every
  other type stay; and with no record stored the call makes no call to the outside at
  all.
\<close>

theorem bulk_submit_clears_partition:
  assumes "wf m" and "target_id x = None" and "submit_fn opts type = Function fn"
    and "\<forall>(k, stored) \<in> set (partition_of m type). fn (spread stored (now e) d) = None"
  shows "submit opts e type d x m =
           (Returned (), AList.update type [] m,
            map (\<lambda>(k, stored). OnSubmit (spread stored (now e) d)) (partition_of m type))
         \<and> length (filter is_OnSubmit (effects_of (submit opts e type d x m)))
             = length (partition_of m type)
         \<and> (\<forall>i. getRecord type i (store_of (submit opts e type d x m)) =
                (Returned None, AList.update type [] m,
                 [Warn (''Record with id '' @ i @ '' not found for type '' @ type) :: 'd effect]))
         \<and> (\<forall>t j. lookup (store_of (submit opts e type d x m)) t j
                  = (if t = type then None else lookup m t j))
         \<and> (partition_of m type = [] \<longrightarrow> effects_of (submit opts e type d x m) = [])"
proof -
  let ?records = "partition_of m type"
  let ?g = "\<lambda>stored. [OnSubmit (spread stored (now e) d)]"
  from wf_partition_of [OF assms(1)] have wfr: "wf_records ?records" .
  then have dist: "distinct (map fst ?records)"
    by (simp add: wf_records_def)
  have each: "\<forall>(k, v) \<in> set ?records.
      map_of ?records k = Some v \<and> id_r v = k
      \<and> triggerSubmit opts v (now e) d type = (Returned (), ?g v)"
  proof (clarify, intro conjI)
    fix k v
    assume kv: "(k, v) \<in> set ?records"
    with dist show "map_of ?records k = Some v"
      by simp
    from kv wfr show "id_r v = k"
      by (auto simp: wf_records_def)
    from kv assms(4) have "fn (spread v (now e) d) = None"
      by auto
    with assms(3) show "triggerSubmit opts v (now e) d type = (Returned (), ?g v)"
      by (simp add: triggerSubmit_def)
  qed
  have "forEach_submit opts (now e) d type ?records ?records =
          (Returned (), filter (\<lambda>(k, v). k \<notin> fst ` set ?records) ?records,
           concat (map (\<lambda>(k, v). ?g v) ?records))"
    using dist each by (rule forEach_all_return)
  moreover have "concat (map (\<lambda>(k, v). ?g v) ?records)
      = map (\<lambda>(k, stored). OnSubmit (spread stored (now e) d)) ?records"
    by (rule concat_singletons)
  ultimately have loop: "forEach_submit opts (now e) d type ?records ?records =
          (Returned (), [], map (\<lambda>(k, stored). OnSubmit (spread stored (now e) d)) ?records)"
    by (simp add: filter_own_keys)
  have store: "AList.update type [] (snd (ensureTypeRecords type m)) = AList.update type [] m"
  proof (cases "map_of m type")
    case None
    then show ?thesis by (simp add: ensureTypeRecords_def)
  next
    case (Some stored)
    then show ?thesis by (simp add: ensureTypeRecords_def)
  qed
  from assms(2) loop store
  have sub: "submit opts e type d x m =
           (Returned (), AList.update type [] m,
            map (\<lambda>(k, stored). OnSubmit (spread stored (now e) d)) ?records)"
    by (simp add: submit_unfold)
  have count: "length (filter is_OnSubmit
        (map (\<lambda>(k, stored). OnSubmit (spread stored (now e) d)) ?records)) = length ?records"
    by (rule length_filter_OnSubmit)
  have get: "getRecord type i (AList.update type [] m) =
      (Returned None, AList.update type [] m,
       [Warn (''Record with id '' @ i @ '' not found for type '' @ type) :: 'd effect])" for i
    by (simp add: getRecord_lookup has_partition_update lookup_def partition_of_update)
  have rest: "lookup (AList.update type [] m) t j = (if t = type then None else lookup m t j)" for t j
    by (simp add: lookup_def partition_of_update)
  from sub count get rest show ?thesis
    by (simp add: effects_of_def store_of_def)
qed

theorem bulk_submit_clears_partition_witness:
  "submit \<lparr>generateId = None, onCreate = None, onSubmit = Some (Global (\<lambda>r. None))\<rparr>
      \<lparr>now = 9, entropy = 0, defaultIdGenerator = ''d1''\<rparr> ''click'' (5 :: nat) Omitted
      [(''click'', [(''a1'', \<lparr>id_r = ''a1'', type_r = ''click'', createdAt = 7\<rparr>),
                    (''b2'', \<lparr>id_r = ''b2'', type_r = ''click'', createdAt = 8\<rparr>)])]
     = (Returned (), [(''click'', [])],
        [OnSubmit \<lparr>id_r = ''a1'', type_r = ''click'', createdAt = 7, submittedAt = 9, data_r = 5\<rparr>,
         OnSubmit \<lparr>id_r = ''b2'', type_r = ''click'', createdAt = 8, submittedAt = 9, data_r = 5\<rparr>])
   \<and> getRecord ''click'' ''a1'' [(''click'', [])]
     = (Returned None, [(''click'', [])], [Warn ''Record with id a1 not found for type click'' :: nat effect])
   \<and> submit \<lparr>generateId = None, onCreate = None, onSubmit = Some (Global (\<lambda>r. None))\<rparr>
      \<lparr>now = 9, entropy = 0, defaultIdGenerator = ''d1''\<rparr> ''click'' (5 :: nat) Omitted initializedRecords
     = (Returned (), [(''click'', [])], [])"
proof -
  let ?opts = "\<lparr>generateId = None, onCreate = None, onSubmit = Some (Global (\<lambda>r. None))\<rparr> :: nat options"
  let ?e = "\<lparr>now = 9, entropy = 0, defaultIdGenerator = ''d1''\<rparr>"
  let ?m = "[(''click'', [(''a1'', \<lparr>id_r = ''a1'', type_r = ''click'', createdAt = 7\<rparr>),
                         (''b2'', \<lparr>id_r = ''b2'', type_r = ''click'', createdAt = 8\<rparr>)])]"
  have w: "wf ?m" "wf initializedRecords"
    by (simp_all add: wf_def wf_records_def initializedRecords_def)
  have t: "target_id Omitted = None"
    by (simp add: target_id_def extract_id_def falsy_def)
  have f: "submit_fn ?opts ''click'' = Function (\<lambda>r. None)"
    by (simp add: submit_fn_def)
  have a: "\<forall>(k, stored) \<in> set (partition_of ?m ''click''). (\<lambda>r. None) (spread stored (now ?e) (5 :: nat)) = None"
    "\<forall>(k, stored) \<in> set (partition_of initializedRecords ''click''). (\<lambda>r. None) (spread stored (now ?e) (5 :: nat)) = None"
    by simp_all
  have p: "partition_of ?m ''click'' = [(''a1'', \<lparr>id_r = ''a1'', type_r = ''click'', createdAt = 7\<rparr>),
                         (''b2'', \<lparr>id_r = ''b2'', type_r = ''click'', createdAt = 8\<rparr>)]"
    "partition_of initializedRecords ''click'' = []"
    by (simp_all add: partition_of_def initializedRecords_def)
  note full = bulk_submit_clears_partition [where e = ?e and d = "5 :: nat", OF w(1) t f a(1)]
  note empty = bulk_submit_clears_partition [where e = ?e and d = "5 :: nat", OF w(2) t f a(2)]
  have 1: "submit ?opts ?e ''click'' 5 Omitted ?m
     = (Returned (), [(''click'', [])],
        [OnSubmit \<lparr>id_r = ''a1'', type_r = ''click'', createdAt = 7, submittedAt = 9, data_r = 5\<rparr>,
         OnSubmit \<lparr>id_r = ''b2'', type_r = ''click'', createdAt = 8, submittedAt = 9, data_r = 5\<rparr>])"
    using full [THEN conjunct1] p by (simp add: spread_def)
  have 2: "getRecord ''click'' ''a1'' [(''click'', [])]
     = (Returned None, [(''click'', [])], [Warn ''Record with id a1 not found for type click'' :: nat effect])"
    using full [THEN conjunct2, THEN conjunct2, THEN conjunct1, THEN spec, of "''a1''"] 1
    by (simp add: store_of_def)
  have 3: "submit ?opts ?e ''click'' 5 Omitted initializedRecords = (Returned (), [(''click'', [])], [])"
    using empty [THEN conjunct1] p by (simp add: initializedRecords_def)
  from 1 2 3 show ?thesis
    by simp
qed

text \<open>
  What the code does when the read \<open>onSubmit?.[type]\<close> gives \<open>undefined\<close>, as it does
  when \<open>onSubmit\<close> is not configured: a single-mode \<open>submit\<close> of a stored record
  returns, calls nothing outside and deletes the record, leaving every other record
  where it was.
\<close>

lemma submit_removes_when_read_undefined:
  assumes "target_id x = Some i" and "lookup m type i = Some stored"
    and "submit_fn opts type = Undefined"
  shows "submit opts e type d x m =
           (Returned (), AList.update type (AList.delete i (partition_of m type)) m, [])
         \<and> lookup (AList.update type (AList.delete i (partition_of m type)) m) type i = None
         \<and> (\<forall>t j. (t, j) \<noteq> (type, i) \<longrightarrow>
              lookup (AList.update type (AList.delete i (partition_of m type)) m) t j = lookup m t j)"
proof -
  let ?m' = "AList.update type (AList.delete i (partition_of m type)) m"
  have ens: "snd (ensureTypeRecords type m) = m"
    by (rule ensure_snd_present [OF lookup_has_partition [OF assms(2)]])
  from assms(3) have "triggerSubmit opts stored (now e) d type = (Returned (), [])"
    by (simp add: triggerSubmit_def)
  with assms(1,2) ens have "submit opts e type d x m = (Returned (), ?m', [])"
    by (simp add: submit_unfold)
  moreover have "lookup ?m' type i = None"
    by (simp add: lookup_def partition_of_update delete_conv')
  moreover have "lookup ?m' t j = lookup m t j" if "(t, j) \<noteq> (type, i)" for t j
    using that by (auto simp: lookup_def partition_of_update delete_conv')
  ultimately show ?thesis
    by blast
qed

text \<open>
  Claim C3 (removal is independent of handler presence) fails on the code for a type
  named like a member of \<open>Object.prototype\<close>. The table \<open>{click: h}\<close> has no entry for
  the type \<open>hasOwnProperty\<close>, yet the read \<open>onSubmit["hasOwnProperty"]\<close> of line 50 gives
  the inherited function, which line 51 calls and which throws a \<open>TypeError\<close>; the table
  \<open>{}\<close> has no entry for the type \<open>__proto__\<close>, and the read gives the prototype object,
  which cannot be called. In both cases \<open>submit\<close> throws at line 117, the \<open>delete\<close> of
  line 118 is not reached, and the record resolved stays in its partition.
\<close>

theorem inherited_member_blocks_removal:
  "map_of [(''click'', \<lambda>r :: unit TrackingSubmitRecord. None :: exn option)] ''hasOwnProperty'' = None
   \<and> submit \<lparr>generateId = None, onCreate = None,
              onSubmit = Some (PerType (object_literal [(''click'', \<lambda>r. None)]))\<rparr>
        \<lparr>now = 9, entropy = 0, defaultIdGenerator = ''d1''\<rparr> ''hasOwnProperty'' () (IdString ''a1'')
        [(''hasOwnProperty'', [(''a1'', \<lparr>id_r = ''a1'', type_r = ''hasOwnProperty'', createdAt = 7\<rparr>)])]
     = (Thrown ''TypeError'',
        [(''hasOwnProperty'', [(''a1'', \<lparr>id_r = ''a1'', type_r = ''hasOwnProperty'', createdAt = 7\<rparr>)])],
        [OnSubmit \<lparr>id_r = ''a1'', type_r = ''hasOwnProperty'', createdAt = 7, submittedAt = 9,
                   data_r = ()\<rparr>])
   \<and> lookup
        [(''hasOwnProperty'', [(''a1'', \<lparr>id_r = ''a1'', type_r = ''hasOwnProperty'', createdAt = 7\<rparr>)])]
        ''hasOwnProperty'' ''a1''
     = Some \<lparr>id_r = ''a1'', type_r = ''hasOwnProperty'', createdAt = 7\<rparr>
   \<and> submit \<lparr>generateId = None, onCreate = None, onSubmit = Some (PerType (object_literal []))\<rparr>
        \<lparr>now = 9, entropy = 0, defaultIdGenerator = ''d1''\<rparr> ''__proto__'' () (IdString ''a1'')
        [(''__proto__'', [(''a1'', \<lparr>id_r = ''a1'', type_r = ''__proto__'', createdAt = 7\<rparr>)])]
     = (Thrown ''TypeError'',
        [(''__proto__'', [(''a1'', \<lparr>id_r = ''a1'', type_r = ''__proto__'', createdAt = 7\<rparr>)])],
        [])
   \<and> lookup [(''__proto__'', [(''a1'', \<lparr>id_r = ''a1'', type_r = ''__proto__'', createdAt = 7\<rparr>)])]
        ''__proto__'' ''a1''
     = Some \<lparr>id_r = ''a1'', type_r = ''__proto__'', createdAt = 7\<rparr>"
  by (simp add: submit_def ensureTypeRecords_def target_id_def extract_id_def falsy_def
      triggerSubmit_def submit_fn_def object_literal_def Object_prototype_def spread_def
      lookup_def partition_of_def)

text \<open>
  Claim C4 (failed lookups are side-effect-free), as stated, fails for \<open>submit\<close>: on a
  tracker that has no partition for \<open>pageView\<close>, \<open>submit("pageView", data, "nope")\<close>
  finds no record, warns, and leaves an empty partition for \<open>pageView\<close> in the store,
  put there by \<open>ensureTypeRecords\<close> at line 102 before the lookup. The change shows in
  what \<open>getRecord("pageView", "nope")\<close> warns of before and after.
\<close>

theorem failed_submit_creates_partition_counterexample:
  "target_id (IdString ''nope'') = Some ''nope''
   \<and> lookup initializedRecords ''pageView'' ''nope'' = None
   \<and> submit \<lparr>generateId = None, onCreate = None, onSubmit = None\<rparr>
        \<lparr>now = 9, entropy = 0, defaultIdGenerator = ''d1''\<rparr> ''pageView'' () (IdString ''nope'')
        initializedRecords
     = (Returned (), [(''pageView'', [])], [Warn ''Record with id nope not found for type pageView''])
   \<and> [(''pageView'', [])] \<noteq> initializedRecords
   \<and> (getRecord ''pageView'' ''nope'' initializedRecords :: _ \<times> _ \<times> unit effect list)
     = (Returned None, initializedRecords, [Warn ''No records found for type pageView''])
   \<and> (getRecord ''pageView'' ''nope'' [(''pageView'', [])] :: _ \<times> _ \<times> unit effect list)
     = (Returned None, [(''pageView'', [])], [Warn ''Record with id nope not found for type pageView''])"
  by (simp add: target_id_def extract_id_def falsy_def lookup_def partition_of_def
      initializedRecords_def submit_def ensureTypeRecords_def getRecord_def)

text \<open>
  Claim C4, amended. \<open>getRecord\<close> leaves the store exactly as it was, whatever it
  finds. A single-mode \<open>submit\<close> whose lookup finds no record returns with the warning
  as its only effect and leaves the store exactly as it was when the type has a
  partition; when it has none, the store gains an empty partition for the type, at
  the end, and nothing else changes: every lookup gives what it gave before and the
  partitions that existed still exist.
\<close>

theorem failed_lookup_store:
  "store_of (getRecord type i m :: _ \<times> _ \<times> 'd effect list) = m
   \<and> (target_id x = Some i \<and> lookup m type i = None \<longrightarrow>
        submit opts e type d x m =
          (Returned (), (if has_partition m type then m else m @ [(type, [])]),
           [Warn (''Record with id '' @ i @ '' not found for type '' @ type) :: 'd effect])
        \<and> (\<forall>t j. lookup (store_of (submit opts e type d x m)) t j = lookup m t j)
        \<and> (\<forall>t. has_partition m t \<longrightarrow> has_partition (store_of (submit opts e type d x m)) t))"
proof -
  have get: "store_of (getRecord type i m :: _ \<times> _ \<times> 'd effect list) = m"
    by (simp add: getRecord_def store_of_def split: option.splits)
  have sub: "submit opts e type d x m =
          (Returned (), (if has_partition m type then m else m @ [(type, [])]),
           [Warn (''Record with id '' @ i @ '' not found for type '' @ type)])"
    if "target_id x = Some i" and "lookup m type i = None"
    using that by (simp add: submit_unfold ensure_snd_present ensure_snd_absent)
  have same: "lookup (store_of (submit opts e type d x m)) t j = lookup m t j"
    if "target_id x = Some i" and "lookup m type i = None" for t j
    using that by (simp add: submit_unfold store_of_def lookup_def partition_of_ensure)
  have keep: "has_partition (store_of (submit opts e type d x m)) t"
    if "target_id x = Some i" and "lookup m type i = None" and "has_partition m t" for t
    using that by (simp add: submit_unfold store_of_def has_partition_ensure)
  from get sub same keep show ?thesis
    by blast
qed

theorem failed_lookup_store_witness:
  "store_of (getRecord ''pageView'' ''nope''
       [(''pageView'', [(''a1'', \<lparr>id_r = ''a1'', type_r = ''pageView'', createdAt = 7\<rparr>)])]
       :: _ \<times> _ \<times> unit effect list)
     = [(''pageView'', [(''a1'', \<lparr>id_r = ''a1'', type_r = ''pageView'', createdAt = 7\<rparr>)])]
   \<and> submit \<lparr>generateId = None, onCreate = None, onSubmit = None\<rparr>
        \<lparr>now = 9, entropy = 0, defaultIdGenerator = ''d1''\<rparr> ''pageView'' () (IdString ''nope'')
        [(''pageView'', [(''a1'', \<lparr>id_r = ''a1'', type_r = ''pageView'', createdAt = 7\<rparr>)])]
     = (Returned (),
        [(''pageView'', [(''a1'', \<lparr>id_r = ''a1'', type_r = ''pageView'', createdAt = 7\<rparr>)])],
        [Warn ''Record with id nope not found for type pageView''])
   \<and> submit \<lparr>generateId = None, onCreate = None, onSubmit = None\<rparr>
        \<lparr>now = 9, entropy = 0, defaultIdGenerator = ''d1''\<rparr> ''click'' () (IdString ''nope'')
        [(''pageView'', [(''a1'', \<lparr>id_r = ''a1'', type_r = ''pageView'', createdAt = 7\<rparr>)])]
     = (Returned (),
        [(''pageView'', [(''a1'', \<lparr>id_r = ''a1'', type_r = ''pageView'', createdAt = 7\<rparr>)]),
         (''click'', [])],
        [Warn ''Record with id nope not found for type click''])"
proof -
  let ?m = "[(''pageView'', [(''a1'', \<lparr>id_r = ''a1'', type_r = ''pageView'', createdAt = 7\<rparr>)])]"
  let ?opts = "\<lparr>generateId = None, onCreate = None, onSubmit = (None :: unit submission option)\<rparr>"
  let ?e = "\<lparr>now = 9, entropy = 0, defaultIdGenerator = ''d1''\<rparr>"
  have t: "target_id (IdString ''nope'') = Some ''nope''"
    by (simp add: target_id_def extract_id_def falsy_def)
  have l: "lookup ?m ''pageView'' ''nope'' = None" "lookup ?m ''click'' ''nope'' = None"
    by (simp_all add: lookup_def partition_of_def)
  have h: "has_partition ?m ''pageView''" "\<not> has_partition ?m ''click''"
    by (simp_all add: has_partition_def)
  from failed_lookup_store [where 'd = unit, of "''pageView''" "''nope''" ?m "IdString ''nope''" ?opts ?e "()"]
    failed_lookup_store [where 'd = unit, of "''click''" "''nope''" ?m "IdString ''nope''" ?opts ?e "()"]
    t l h
  show ?thesis
    by simp
qed

text \<open>
  Claim C5 (lazy partition creation), as stated, fails for \<open>getRecord\<close>: it reads the
  outer \<open>Map\<close> with \<open>get\<close> (line 59) and does not go through \<open>ensureTypeRecords\<close>, so
  on a new tracker \<open>getRecord("pageView", "x")\<close>, the first operation to name
  \<open>pageView\<close>, leaves the tracker without a partition for it.
\<close>

theorem getRecord_creates_no_partition_counterexample:
  "\<not> has_partition initializedRecords ''pageView''
   \<and> (getRecord ''pageView'' ''x'' initializedRecords :: _ \<times> _ \<times> unit effect list)
     = (Returned None, initializedRecords, [Warn ''No records found for type pageView''])
   \<and> \<not> has_partition
         (store_of (getRecord ''pageView'' ''x'' initializedRecords :: _ \<times> _ \<times> unit effect list))
         ''pageView''"
  by (simp add: has_partition_def initializedRecords_def getRecord_def store_of_def)

text \<open>
  Claim C5, amended. The partition of a type comes into existence with the first
  \<open>create\<close> (once the id generator has returned) or \<open>submit\<close> that names the type:
  after either, the type has a partition, whatever else the call does. \<open>getRecord\<close>
  creates none: it leaves the store as it is. No method removes a partition: one that
  exists before a \<open>create\<close>, a \<open>submit\<close> or a \<open>getRecord\<close>, for any type, exists after
  it, emptied or not.
\<close>

theorem partition_lifetime:
  "(\<forall>j. Tracker_generateId opts e = Returned j \<longrightarrow>
        has_partition (store_of (create opts e type m)) type)
   \<and> has_partition (store_of (submit opts e type d x m)) type
   \<and> store_of (getRecord type i m :: _ \<times> _ \<times> 'd effect list) = m
   \<and> (has_partition m t \<longrightarrow>
        has_partition (store_of (create opts e type m)) t
        \<and> has_partition (store_of (submit opts e type d x m)) t
        \<and> has_partition (store_of (getRecord type i m :: _ \<times> _ \<times> 'd effect list)) t)"
proof -
  have cr: "has_partition (store_of (create opts e type m)) type"
    if "Tracker_generateId opts e = Returned j" for j
    using that
    by (simp add: create_unfold Let_def store_of_def has_partition_update split: option.splits)
  have su: "has_partition (store_of (submit opts e type d x m)) t"
    if "t = type \<or> has_partition m t" for t
    using that
    by (auto simp: submit_unfold store_of_def has_partition_update has_partition_ensure
        split: option.splits prod.splits outcome.splits)
  have ge: "store_of (getRecord type i m :: _ \<times> _ \<times> 'd effect list) = m"
    by (simp add: getRecord_def store_of_def split: option.splits)
  have cr': "has_partition (store_of (create opts e type m)) t" if "has_partition m t"
    using that
    by (auto simp: create_unfold Let_def store_of_def has_partition_update has_partition_ensure
        split: option.splits outcome.splits)
  from cr su ge cr' show ?thesis
    by simp
qed

theorem partition_lifetime_witness:
  "has_partition
     (store_of (create \<lparr>generateId = None, onCreate = None, onSubmit = (None :: unit submission option)\<rparr>
                 \<lparr>now = 9, entropy = 0, defaultIdGenerator = ''d1''\<rparr> ''click''
                 [(''pageView'', [])]))
     ''click''
   \<and> has_partition
     (store_of (create \<lparr>generateId = None, onCreate = None, onSubmit = (None :: unit submission option)\<rparr>
                 \<lparr>now = 9, entropy = 0, defaultIdGenerator = ''d1''\<rparr> ''click''
                 [(''pageView'', [])]))
     ''pageView''
   \<and> has_partition
     (store_of (submit \<lparr>generateId = None, onCreate = None, onSubmit = None\<rparr>
                 \<lparr>now = 9, entropy = 0, defaultIdGenerator = ''d1''\<rparr> ''click'' () Omitted
                 [(''pageView'', [])]))
     ''pageView''
   \<and> has_partition
     (store_of (getRecord ''click'' ''x'' [(''pageView'', [])] :: _ \<times> _ \<times> unit effect list))
     ''pageView''"
proof -
  let ?opts = "\<lparr>generateId = None, onCreate = None, onSubmit = (None :: unit submission option)\<rparr>"
  let ?e = "\<lparr>now = 9, entropy = 0, defaultIdGenerator = ''d1''\<rparr>"
  have g: "Tracker_generateId ?opts ?e = Returned ''d1''"
    by (simp add: Tracker_generateId_def)
  have h: "has_partition [(''pageView'', [])] ''pageView''"
    by (simp add: has_partition_def)
  from partition_lifetime [where 'd = unit, of ?opts ?e "''click''" "[(''pageView'', [])]" "()" Omitted
      "''x''" "''pageView''"] g h
  show ?thesis
    by simp
qed

text \<open>
  Claim C6 (round-trip read). When \<open>create(type)\<close> has returned the record \<open>r\<close>,
  \<open>getRecord(type, r.id)\<close> on the store \<open>create\<close> left returns \<open>r\<close>, warns of
  nothing and leaves the store as it is, so that \<open>r\<close> is still stored under its type
  and id after the read.
\<close>

theorem create_getRecord_roundtrip:
  assumes "create (opts :: 'd options) e type m = (Returned r, m1, effs)"
  shows "getRecord type (id_r r) m1 = (Returned (Some r), m1, [] :: 'd effect list)
         \<and> lookup (store_of (getRecord type (id_r r) m1 :: _ \<times> _ \<times> 'd effect list)) type (id_r r)
             = Some r"
proof -
  let ?records = "AList.update (id_r r) r (partition_of m type)"
  have m1: "m1 = AList.update type ?records (snd (ensureTypeRecords type m))"
    using assms by (rule create_Returned)
  have "map_of m1 type = Some ?records"
    by (simp add: m1 update_conv')
  moreover have "map_of ?records (id_r r) = Some r"
    by (simp add: update_conv')
  ultimately have get: "getRecord type (id_r r) m1 = (Returned (Some r), m1, [] :: 'd effect list)"
    by (simp add: getRecord_def)
  have "lookup m1 type (id_r r) = Some r"
    by (simp add: lookup_def m1 partition_of_update update_conv')
  with get show ?thesis
    by (simp add: store_of_def)
qed

theorem create_getRecord_roundtrip_witness:
  "create \<lparr>generateId = Some (\<lambda>e. Returned (Some ''custom-id'')), onCreate = Some (\<lambda>r. None),
           onSubmit = (None :: unit submission option)\<rparr>
      \<lparr>now = 1672531200000, entropy = 0, defaultIdGenerator = ''d1''\<rparr> ''pageView'' initializedRecords
     = (Returned \<lparr>id_r = ''custom-id'', type_r = ''pageView'', createdAt = 1672531200000\<rparr>,
        [(''pageView'',
          [(''custom-id'', \<lparr>id_r = ''custom-id'', type_r = ''pageView'', createdAt = 1672531200000\<rparr>)])],
        [OnCreate \<lparr>id_r = ''custom-id'', type_r = ''pageView'', createdAt = 1672531200000\<rparr>])
   \<and> (getRecord ''pageView'' ''custom-id''
        [(''pageView'',
          [(''custom-id'', \<lparr>id_r = ''custom-id'', type_r = ''pageView'', createdAt = 1672531200000\<rparr>)])]
        :: _ \<times> _ \<times> unit effect list)
     = (Returned (Some \<lparr>id_r = ''custom-id'', type_r = ''pageView'', createdAt = 1672531200000\<rparr>),
        [(''pageView'',
          [(''custom-id'', \<lparr>id_r = ''custom-id'', type_r = ''pageView'', createdAt = 1672531200000\<rparr>)])],
        [])"
proof -
  have c: "create \<lparr>generateId = Some (\<lambda>e. Returned (Some ''custom-id'')), onCreate = Some (\<lambda>r. None),
           onSubmit = (None :: unit submission option)\<rparr>
      \<lparr>now = 1672531200000, entropy = 0, defaultIdGenerator = ''d1''\<rparr> ''pageView'' initializedRecords
     = (Returned \<lparr>id_r = ''custom-id'', type_r = ''pageView'', createdAt = 1672531200000\<rparr>,
        [(''pageView'',
          [(''custom-id'', \<lparr>id_r = ''custom-id'', type_r = ''pageView'', createdAt = 1672531200000\<rparr>)])],
        [OnCreate \<lparr>id_r = ''custom-id'', type_r = ''pageView'', createdAt = 1672531200000\<rparr>])"
    by (simp add: create_def Tracker_generateId_def ensureTypeRecords_def initializedRecords_def Let_def)
  from create_getRecord_roundtrip [where 'd = unit, OF c] c show ?thesis
    by simp
qed

text \<open>
  Claim C7 (\<open>getRecord\<close> never throws and warns precisely on failure). Without a
  partition for the type, \<open>getRecord\<close> warns \<open>No records found for type {type}\<close> and
  returns \<open>null\<close>; with a partition that lacks the id, it warns
  \<open>Record with id {id} not found for type {type}\<close> and returns \<open>null\<close>; otherwise it
  returns the stored record and warns of nothing. In no case does it throw.
\<close>

theorem getRecord_warns_on_failure:
  "(map_of m type = None \<longrightarrow>
      getRecord type i m = (Returned None, m, [Warn (''No records found for type '' @ type) :: 'd effect]))
   \<and> (\<forall>records. map_of m type = Some records \<longrightarrow>
        (map_of records i = None \<longrightarrow>
           getRecord type i m =
             (Returned None, m,
              [Warn (''Record with id '' @ i @ '' not found for type '' @ type) :: 'd effect]))
        \<and> (\<forall>record. map_of records i = Some record \<longrightarrow>
             getRecord type i m = (Returned (Some record), m, [] :: 'd effect list)))
   \<and> (\<forall>x. outcome_of (getRecord type i m :: _ \<times> _ \<times> 'd effect list) \<noteq> Thrown x)"
  by (simp add: getRecord_def outcome_of_def split: option.splits)

theorem getRecord_warns_on_failure_witness:
  "(getRecord ''neverCreated'' ''x'' initializedRecords :: _ \<times> _ \<times> unit effect list) =
      (Returned None, initializedRecords, [Warn ''No records found for type neverCreated''])
   \<and> (getRecord ''pageView'' ''b''
        [(''pageView'', [(''a'', \<lparr>id_r = ''a'', type_r = ''pageView'', createdAt = 1\<rparr>)])]
        :: _ \<times> _ \<times> unit effect list) =
      (Returned None,
       [(''pageView'', [(''a'', \<lparr>id_r = ''a'', type_r = ''pageView'', createdAt = 1\<rparr>)])],
       [Warn ''Record with id b not found for type pageView''])
   \<and> (getRecord ''pageView'' ''a''
        [(''pageView'', [(''a'', \<lparr>id_r = ''a'', type_r = ''pageView'', createdAt = 1\<rparr>)])]
        :: _ \<times> _ \<times> unit effect list) =
      (Returned (Some \<lparr>id_r = ''a'', type_r = ''pageView'', createdAt = 1\<rparr>),
       [(''pageView'', [(''a'', \<lparr>id_r = ''a'', type_r = ''pageView'', createdAt = 1\<rparr>)])],
       [])"
  using getRecord_warns_on_failure [where 'd = unit, of initializedRecords "''neverCreated''" "''x''"]
    getRecord_warns_on_failure
      [where 'd = unit, of "[(''pageView'', [(''a'', \<lparr>id_r = ''a'', type_r = ''pageView'', createdAt = 1\<rparr>)])]"
          "''pageView''" "''b''"]
    getRecord_warns_on_failure
      [where 'd = unit, of "[(''pageView'', [(''a'', \<lparr>id_r = ''a'', type_r = ''pageView'', createdAt = 1\<rparr>)])]"
          "''pageView''" "''a''"]
  by (simp add: initializedRecords_def)

text \<open>
  Claim C8 (a single-mode \<open>submit\<close> for a missing id is a warned no-op on dispatch).
  When the third argument resolves to the id \<open>i\<close> (a string that is not empty, given
  directly or as the \<open>id\<close> of an object) and no record is stored under the type and
  \<open>i\<close>, \<open>submit\<close> returns, its only call to the outside is the warning
  \<open>Record with id {id} not found for type {type}\<close>, so no handler is invoked, and every
  record stored before is stored after.
\<close>

theorem submit_missing_id_warns:
  assumes "target_id x = Some i" and "lookup m type i = None"
  shows "submit opts e type d x m =
           (Returned (), snd (ensureTypeRecords type m),
            [Warn (''Record with id '' @ i @ '' not found for type '' @ type)])
         \<and> (\<forall>t j. lookup (store_of (submit opts e type d x m)) t j = lookup m t j)"
  using assms by (simp add: submit_unfold store_of_def lookup_def partition_of_ensure)

theorem submit_missing_id_warns_witness:
  "submit \<lparr>generateId = None, onCreate = None, onSubmit = Some (Global (\<lambda>r. None))\<rparr>
      \<lparr>now = 9, entropy = 0, defaultIdGenerator = ''d1''\<rparr> ''pageView'' (5 :: nat) (IdString ''nope'')
      [(''pageView'', [(''a1'', \<lparr>id_r = ''a1'', type_r = ''pageView'', createdAt = 7\<rparr>)])]
     = (Returned (),
        [(''pageView'', [(''a1'', \<lparr>id_r = ''a1'', type_r = ''pageView'', createdAt = 7\<rparr>)])],
        [Warn ''Record with id nope not found for type pageView''])"
proof -
  let ?m = "[(''pageView'', [(''a1'', \<lparr>id_r = ''a1'', type_r = ''pageView'', createdAt = 7\<rparr>)])]"
  have t: "target_id (IdString ''nope'') = Some ''nope''"
    by (simp add: target_id_def extract_id_def falsy_def)
  have l: "lookup ?m ''pageView'' ''nope'' = None"
    by (simp add: lookup_def partition_of_def)
  have "snd (ensureTypeRecords ''pageView'' ?m) = ?m"
    by (simp add: ensureTypeRecords_def)
  with submit_missing_id_warns [OF t l,
      of "\<lparr>generateId = None, onCreate = None, onSubmit = Some (Global (\<lambda>r. None))\<rparr>"
         "\<lparr>now = 9, entropy = 0, defaultIdGenerator = ''d1''\<rparr>" "5 :: nat"]
  show ?thesis
    by simp
qed

text \<open>
  Claim C9 (resolution of \<open>idOrRecord\<close>). A third argument that is the string \<open>s\<close>, not
  empty, or an object whose \<open>id\<close> is \<open>s\<close>, makes \<open>submit\<close> act on the id \<open>s\<close> and on
  nothing else: with no record under \<open>s\<close> it warns, naming \<open>s\<close>, and with one, and a
  function picked for the type that returns on it, it dispatches that record alone and
  deletes the key \<open>s\<close> alone. A third argument that is left out, or an object without an
  \<open>id\<close>, or an object whose \<open>id\<close> is the empty string, or the empty string itself,
  makes \<open>submit\<close> do what it does with the argument left out, the bulk branch: on a
  well-formed store, with a function picked that returns on each record stored under
  the type, every such record is dispatched, in order, the partition is left empty, and
  there is no warning.
\<close>

theorem idOrRecord_resolution:
  "(s \<noteq> [] \<and> (x = IdString s \<or> x = RecordObject (Some s)) \<longrightarrow>
      (lookup m type s = None \<longrightarrow>
         submit opts e type d x m =
           (Returned (), snd (ensureTypeRecords type m),
            [Warn (''Record with id '' @ s @ '' not found for type '' @ type)]))
      \<and> (\<forall>stored fn. lookup m type s = Some stored \<and> submit_fn opts type = Function fn
             \<and> fn (spread stored (now e) d) = None \<longrightarrow>
           submit opts e type d x m =
             (Returned (), AList.update type (AList.delete s (partition_of m type)) m,
              [OnSubmit (spread stored (now e) d)])))
   \<and> (x = Omitted \<or> x = RecordObject None \<or> x = RecordObject (Some []) \<or> x = IdString [] \<longrightarrow>
        submit opts e type d x m = submit opts e type d Omitted m
        \<and> (\<forall>fn. wf m \<and> submit_fn opts type = Function fn
               \<and> (\<forall>(k, stored) \<in> set (partition_of m type). fn (spread stored (now e) d) = None) \<longrightarrow>
             submit opts e type d x m =
               (Returned (), AList.update type [] m,
                map (\<lambda>(k, stored). OnSubmit (spread stored (now e) d)) (partition_of m type))))"
proof -
  have single_missing: "submit opts e type d x m =
      (Returned (), snd (ensureTypeRecords type m),
       [Warn (''Record with id '' @ s @ '' not found for type '' @ type)])"
    if "s \<noteq> []" and "x = IdString s \<or> x = RecordObject (Some s)" and "lookup m type s = None"
  proof -
    from that(1,2) have "target_id x = Some s"
      by (auto simp: target_id_def extract_id_def falsy_def)
    with that(3) show ?thesis
      by (simp add: submit_unfold)
  qed
  have single_found: "submit opts e type d x m =
      (Returned (), AList.update type (AList.delete s (partition_of m type)) m,
       [OnSubmit (spread stored (now e) d)])"
    if "s \<noteq> []" and "x = IdString s \<or> x = RecordObject (Some s)"
      and "lookup m type s = Some stored" and "submit_fn opts type = Function fn"
      and "fn (spread stored (now e) d) = None" for stored fn
  proof -
    from that(1,2) have "target_id x = Some s"
      by (auto simp: target_id_def extract_id_def falsy_def)
    then show ?thesis
      using that(3,4,5) by (rule submit_single_returns)
  qed
  have none: "target_id x = None"
    if "x = Omitted \<or> x = RecordObject None \<or> x = RecordObject (Some []) \<or> x = IdString []"
    using that by (auto simp: target_id_def extract_id_def falsy_def)
  have same: "submit opts e type d x m = submit opts e type d Omitted m"
    if "x = Omitted \<or> x = RecordObject None \<or> x = RecordObject (Some []) \<or> x = IdString []"
    using none [OF that] by (simp add: submit_def target_id_def extract_id_def falsy_def)
  have bulk: "submit opts e type d x m =
      (Returned (), AList.update type [] m,
       map (\<lambda>(k, stored). OnSubmit (spread stored (now e) d)) (partition_of m type))"
    if "x = Omitted \<or> x = RecordObject None \<or> x = RecordObject (Some []) \<or> x = IdString []"
      and "wf m" and "submit_fn opts type = Function fn"
      and "\<forall>(k, stored) \<in> set (partition_of m type). fn (spread stored (now e) d) = None" for fn
    using that(2) none [OF that(1)] that(3,4) by (rule submit_bulk_all_return)
  from single_missing single_found same bulk show ?thesis
    by blast
qed

theorem idOrRecord_resolution_witness:
  "submit \<lparr>generateId = None, onCreate = None, onSubmit = Some (Global (\<lambda>r. None))\<rparr>
      \<lparr>now = 9, entropy = 0, defaultIdGenerator = ''d1''\<rparr> ''click'' (5 :: nat) (IdString ''b2'')
      [(''click'', [(''a1'', \<lparr>id_r = ''a1'', type_r = ''click'', createdAt = 7\<rparr>),
                    (''b2'', \<lparr>id_r = ''b2'', type_r = ''click'', createdAt = 8\<rparr>)])]
     = (Returned (),
        [(''click'', [(''a1'', \<lparr>id_r = ''a1'', type_r = ''click'', createdAt = 7\<rparr>)])],
        [OnSubmit \<lparr>id_r = ''b2'', type_r = ''click'', createdAt = 8, submittedAt = 9, data_r = 5\<rparr>])
   \<and> submit \<lparr>generateId = None, onCreate = None, onSubmit = Some (Global (\<lambda>r. None))\<rparr>
      \<lparr>now = 9, entropy = 0, defaultIdGenerator = ''d1''\<rparr> ''click'' (5 :: nat)
      (RecordObject (Some ''b2''))
      [(''click'', [(''a1'', \<lparr>id_r = ''a1'', type_r = ''click'', createdAt = 7\<rparr>),
                    (''b2'', \<lparr>id_r = ''b2'', type_r = ''click'', createdAt = 8\<rparr>)])]
     = (Returned (),
        [(''click'', [(''a1'', \<lparr>id_r = ''a1'', type_r = ''click'', createdAt = 7\<rparr>)])],
        [OnSubmit \<lparr>id_r = ''b2'', type_r = ''click'', createdAt = 8, submittedAt = 9, data_r = 5\<rparr>])
   \<and> submit \<lparr>generateId = None, onCreate = None, onSubmit = Some (Global (\<lambda>r. None))\<rparr>
      \<lparr>now = 9, entropy = 0, defaultIdGenerator = ''d1''\<rparr> ''click'' (5 :: nat) (IdString ''zz'')
      [(''click'', [(''a1'', \<lparr>id_r = ''a1'', type_r = ''click'', createdAt = 7\<rparr>),
                    (''b2'', \<lparr>id_r = ''b2'', type_r = ''click'', createdAt = 8\<rparr>)])]
     = (Returned (),
        [(''click'', [(''a1'', \<lparr>id_r = ''a1'', type_r = ''click'', createdAt = 7\<rparr>),
                      (''b2'', \<lparr>id_r = ''b2'', type_r = ''click'', createdAt = 8\<rparr>)])],
        [Warn ''Record with id zz not found for type click''])
   \<and> submit \<lparr>generateId = None, onCreate = None, onSubmit = Some (Global (\<lambda>r. None))\<rparr>
      \<lparr>now = 9, entropy = 0, defaultIdGenerator = ''d1''\<rparr> ''click'' (5 :: nat) (IdString [])
      [(''click'', [(''a1'', \<lparr>id_r = ''a1'', type_r = ''click'', createdAt = 7\<rparr>),
                    (''b2'', \<lparr>id_r = ''b2'', type_r = ''click'', createdAt = 8\<rparr>)])]
     = (Returned (), [(''click'', [])],
        [OnSubmit \<lparr>id_r = ''a1'', type_r = ''click'', createdAt = 7, submittedAt = 9, data_r = 5\<rparr>,
         OnSubmit \<lparr>id_r = ''b2'', type_r = ''click'', createdAt = 8, submittedAt = 9, data_r = 5\<rparr>])
   \<and> submit \<lparr>generateId = None, onCreate = None, onSubmit = Some (Global (\<lambda>r. None))\<rparr>
      \<lparr>now = 9, entropy = 0, defaultIdGenerator = ''d1''\<rparr> ''click'' (5 :: nat) (RecordObject None)
      [(''click'', [(''a1'', \<lparr>id_r = ''a1'', type_r = ''click'', createdAt = 7\<rparr>),
                    (''b2'', \<lparr>id_r = ''b2'', type_r = ''click'', createdAt = 8\<rparr>)])]
     = (Returned (), [(''click'', [])],
        [OnSubmit \<lparr>id_r = ''a1'', type_r = ''click'', createdAt = 7, submittedAt = 9, data_r = 5\<rparr>,
         OnSubmit \<lparr>id_r = ''b2'', type_r = ''click'', createdAt = 8, submittedAt = 9, data_r = 5\<rparr>])"
proof -
  let ?opts = "\<lparr>generateId = None, onCreate = None, onSubmit = Some (Global (\<lambda>r. None))\<rparr> :: nat options"
  let ?e = "\<lparr>now = 9, entropy = 0, defaultIdGenerator = ''d1''\<rparr>"
  let ?a = "\<lparr>id_r = ''a1'', type_r = ''click'', createdAt = 7\<rparr>"
  let ?b = "\<lparr>id_r = ''b2'', type_r = ''click'', createdAt = 8\<rparr>"
  let ?m = "[(''click'', [(''a1'', ?a), (''b2'', ?b)])]"
  have w: "wf ?m"
    by (simp add: wf_def wf_records_def)
  have f: "submit_fn ?opts ''click'' = Function (\<lambda>r. None)"
    by (simp add: submit_fn_def)
  have a: "\<forall>(k, stored) \<in> set (partition_of ?m ''click''). (\<lambda>r. None) (spread stored (now ?e) (5 :: nat)) = None"
    by simp
  have p: "partition_of ?m ''click'' = [(''a1'', ?a), (''b2'', ?b)]"
    by (simp add: partition_of_def)
  have l: "lookup ?m ''click'' ''b2'' = Some ?b" "lookup ?m ''click'' ''zz'' = None"
    by (simp_all add: lookup_def p)
  have en: "snd (ensureTypeRecords ''click'' ?m) = ?m"
    by (simp add: ensureTypeRecords_def)
  note inst = idOrRecord_resolution [where e = ?e and d = "5 :: nat" and opts = ?opts and m = ?m
      and type = "''click''"]
  have 1: "submit ?opts ?e ''click'' 5 (IdString ''b2'') ?m
      = (Returned (), [(''click'', [(''a1'', ?a)])],
         [OnSubmit \<lparr>id_r = ''b2'', type_r = ''click'', createdAt = 8, submittedAt = 9, data_r = 5\<rparr>])"
    using inst [of "''b2''" "IdString ''b2''"] l(1) p f by (simp add: spread_def)
  have 2: "submit ?opts ?e ''click'' 5 (RecordObject (Some ''b2'')) ?m
      = (Returned (), [(''click'', [(''a1'', ?a)])],
         [OnSubmit \<lparr>id_r = ''b2'', type_r = ''click'', createdAt = 8, submittedAt = 9, data_r = 5\<rparr>])"
    using inst [of "''b2''" "RecordObject (Some ''b2'')"] l(1) p f by (simp add: spread_def)
  have 3: "submit ?opts ?e ''click'' 5 (IdString ''zz'') ?m
      = (Returned (), ?m, [Warn ''Record with id zz not found for type click''])"
    using inst [of "''zz''" "IdString ''zz''"] l(2) en by simp
  have b: "submit ?opts ?e ''click'' 5 x ?m
      = (Returned (), [(''click'', [])],
         [OnSubmit \<lparr>id_r = ''a1'', type_r = ''click'', createdAt = 7, submittedAt = 9, data_r = 5\<rparr>,
          OnSubmit \<lparr>id_r = ''b2'', type_r = ''click'', createdAt = 8, submittedAt = 9, data_r = 5\<rparr>])"
    if "x = Omitted \<or> x = RecordObject None \<or> x = RecordObject (Some []) \<or> x = IdString []" for x
    using inst [of "''b2''" x, THEN conjunct2, THEN mp, OF that, THEN conjunct2, THEN spec,
        of "\<lambda>r. None"] w f p
    by (simp add: spread_def)
  have 4: "submit ?opts ?e ''click'' 5 (IdString []) ?m
      = (Returned (), [(''click'', [])],
         [OnSubmit \<lparr>id_r = ''a1'', type_r = ''click'', createdAt = 7, submittedAt = 9, data_r = 5\<rparr>,
          OnSubmit \<lparr>id_r = ''b2'', type_r = ''click'', createdAt = 8, submittedAt = 9, data_r = 5\<rparr>])"
    by (rule b) simp
  have 5: "submit ?opts ?e ''click'' 5 (RecordObject None) ?m
      = (Returned (), [(''click'', [])],
         [OnSubmit \<lparr>id_r = ''a1'', type_r = ''click'', createdAt = 7, submittedAt = 9, data_r = 5\<rparr>,
          OnSubmit \<lparr>id_r = ''b2'', type_r = ''click'', createdAt = 8, submittedAt = 9, data_r = 5\<rparr>])"
    by (rule b) simp
  from 1 2 3 4 5 show ?thesis
    by simp
qed

text \<open>
  Claim C10 (\<open>create\<close> inserts before it notifies). When the id generator has returned
  \<open>i\<close> and \<open>onCreate\<close> throws \<open>x\<close> on the new record, \<open>create\<close> throws \<open>x\<close>
  after that one call to \<open>onCreate\<close>, and the store it leaves behind holds the new
  record under its type and \<open>i\<close>: a \<open>getRecord(type, i)\<close> that follows returns it.
\<close>

theorem create_stores_before_onCreate:
  assumes "Tracker_generateId (opts :: 'd options) e = Returned i"
    and "onCreate opts = Some f"
    and "f \<lparr>id_r = i, type_r = type, createdAt = now e\<rparr> = Some x"
  shows "outcome_of (create opts e type m) = Thrown x
         \<and> effects_of (create opts e type m) = [OnCreate \<lparr>id_r = i, type_r = type, createdAt = now e\<rparr>]
         \<and> lookup (store_of (create opts e type m)) type i
             = Some \<lparr>id_r = i, type_r = type, createdAt = now e\<rparr>
         \<and> getRecord type i (store_of (create opts e type m))
             = (Returned (Some \<lparr>id_r = i, type_r = type, createdAt = now e\<rparr>),
                store_of (create opts e type m), [] :: 'd effect list)"
proof -
  let ?r = "\<lparr>id_r = i, type_r = type, createdAt = now e\<rparr>"
  let ?m2 = "AList.update type (AList.update i ?r (partition_of m type)) (snd (ensureTypeRecords type m))"
  have c: "create opts e type m = (Thrown x, ?m2, [OnCreate ?r])"
    using assms by (simp add: create_unfold Let_def)
  have l: "lookup ?m2 type i = Some ?r"
    by (simp add: lookup_def partition_of_update update_conv')
  have "has_partition ?m2 type"
    by (simp add: has_partition_update)
  with l have "getRecord type i ?m2 = (Returned (Some ?r), ?m2, [] :: 'd effect list)"
    by (simp add: getRecord_lookup)
  with c l show ?thesis
    by (simp add: outcome_of_def store_of_def effects_of_def)
qed

theorem create_stores_before_onCreate_witness:
  "outcome_of (create \<lparr>generateId = None, onCreate = Some (\<lambda>r. Some ''boom''),
                       onSubmit = (None :: unit submission option)\<rparr>
                \<lparr>now = 7, entropy = 0, defaultIdGenerator = ''d1''\<rparr> ''click'' initializedRecords)
     = Thrown ''boom''
   \<and> (getRecord ''click'' ''d1''
        (store_of (create \<lparr>generateId = None, onCreate = Some (\<lambda>r. Some ''boom''),
                           onSubmit = (None :: unit submission option)\<rparr>
                    \<lparr>now = 7, entropy = 0, defaultIdGenerator = ''d1''\<rparr> ''click'' initializedRecords))
        :: _ \<times> _ \<times> unit effect list)
     = (Returned (Some \<lparr>id_r = ''d1'', type_r = ''click'', createdAt = 7\<rparr>),
        [(''click'', [(''d1'', \<lparr>id_r = ''d1'', type_r = ''click'', createdAt = 7\<rparr>)])], [])"
proof -
  let ?opts = "\<lparr>generateId = None, onCreate = Some (\<lambda>r. Some ''boom''),
                onSubmit = (None :: unit submission option)\<rparr>"
  let ?e = "\<lparr>now = 7, entropy = 0, defaultIdGenerator = ''d1''\<rparr>"
  have g: "Tracker_generateId ?opts ?e = Returned ''d1''"
    by (simp add: Tracker_generateId_def)
  have o: "onCreate ?opts = Some (\<lambda>r. Some ''boom'')"
    by simp
  have t: "(\<lambda>r. Some ''boom'') \<lparr>id_r = ''d1'', type_r = ''click'', createdAt = now ?e\<rparr> = Some ''boom''"
    by simp
  have s: "store_of (create ?opts ?e ''click'' initializedRecords)
           = [(''click'', [(''d1'', \<lparr>id_r = ''d1'', type_r = ''click'', createdAt = 7\<rparr>)])]"
    by (simp add: create_def Tracker_generateId_def ensureTypeRecords_def initializedRecords_def
        store_of_def Let_def)
  from create_stores_before_onCreate [where 'd = unit, OF g o t, of "''click''" initializedRecords] s
  show ?thesis
    by simp
qed

end
